theory Spec2Isabelle
  imports Complex_Main "HOL-Library.Char_ord"
begin

section \<open>mathrepl.c: the data model\<close>

text \<open>
  The program computes on C \<open>double\<close>s. Their arithmetic and the C library functions the
  program calls (\<open>strtod\<close>, \<open>pow\<close>, \<open>tgamma\<close>, the constants \<open>M_E\<close> and \<open>M_PI\<close> of
  \<open>math.h\<close>) are not part of the source file, so the evaluator takes them as a parameter:
  a record of operations on a type \<open>'d\<close> of doubles. \<open>strtod s\<close> returns the converted
  value and the number of characters it consumed (the distance of \<open>endptr\<close> from \<open>s\<close>).
\<close>

record 'd double_ops =
  fp_zero :: "'d"
  fp_one :: "'d"
  fp_eq :: "'d \<Rightarrow> 'd \<Rightarrow> bool"
  fp_lt :: "'d \<Rightarrow> 'd \<Rightarrow> bool"
  fp_neg :: "'d \<Rightarrow> 'd"
  fp_add :: "'d \<Rightarrow> 'd \<Rightarrow> 'd"
  fp_sub :: "'d \<Rightarrow> 'd \<Rightarrow> 'd"
  fp_mul :: "'d \<Rightarrow> 'd \<Rightarrow> 'd"
  fp_div :: "'d \<Rightarrow> 'd \<Rightarrow> 'd"
  strtod :: "string \<Rightarrow> 'd \<times> nat"
  pow :: "'d \<Rightarrow> 'd \<Rightarrow> 'd"
  tgamma :: "'d \<Rightarrow> 'd"
  M_E :: "'d"
  M_PI :: "'d"

datatype NodeType =
  NT_Global | NT_Newline | NT_Error | NT_OpenPar | NT_ClosePar | NT_Identifier | NT_Number
| NT_Minus | NT_Add | NT_Subtract | NT_Multiply | NT_Divide | NT_Power | NT_Factorial

text \<open>
  \<open>struct Node\<close>. \<open>size\<close> is a \<open>uint16_t\<close> and \<open>pos\<close> a \<open>uint32_t\<close>: both are naturals
  here, reduced modulo \<open>2^16\<close> and \<open>2^32\<close> where the code stores into them. The members of
  the anonymous union are separate fields: the code only ever reads the member it wrote
  last. \<open>n_name\<close> is the C string the pointer \<open>name\<close> points at, that is the line from the
  first character of the identifier on.
\<close>

record 'd Node =
  n_type :: NodeType
  n_size :: nat
  n_pos :: nat
  n_name :: string
  n_error :: string
  n_real :: "'d"

text \<open>
  \<open>struct Value\<close> with its tag \<open>enum DataType\<close>. The second argument of \<open>DT_Error\<close> is
  the \<open>size\<close> field (a \<open>uint16_t\<close>), which the evaluator reuses for the offset of the
  fault; for the other kinds the code never reads \<open>size\<close>.
\<close>

datatype 'd Value = DT_Void | DT_Error string nat | DT_Real "'d"

record 'd Symbol =
  s_name :: string
  s_name_size :: nat
  s_value :: "'d Value"

text \<open>
  \<open>struct SymbolTable\<close>: the entries \<open>0 .. symbol_count - 1\<close> of the three parallel arrays,
  in index order; \<open>symbol_count\<close> is the length of the list.
\<close>

type_synonym 'd SymbolTable = "'d Symbol list"

definition SYMBOL_CAPACITY :: nat where
  "SYMBOL_CAPACITY = 64"

text \<open>
  What C leaves undefined is a value of the model: an access to an array outside its
  bounds, with the array and the index, or a read of an element never written.
\<close>

datatype array = Arr_symbols | Arr_opers | Arr_stack

datatype fault = Out_of_bounds array nat | Uninitialised array nat

text \<open>
  The ways a call of \<open>evaluate_line\<close> ends: it returns a \<open>Value\<close>, it prints
  \<open>ERROR: broken parser\<close> and calls \<open>exit(1)\<close>, or its behaviour is undefined.
\<close>

datatype 'd outcome = Return "'d Value" | Exit_broken_parser | Undefined fault

section \<open>The lexer\<close>

definition is_character :: "char \<Rightarrow> bool" where
  "is_character c \<longleftrightarrow> (CHR ''A'' \<le> c \<and> c \<le> CHR ''Z'') \<or> (CHR ''a'' \<le> c \<and> c \<le> CHR ''z'')"

definition is_alnum :: "char \<Rightarrow> bool" where
  "is_alnum c \<longleftrightarrow> (CHR ''A'' \<le> c \<and> c \<le> CHR ''Z'') \<or> (CHR ''a'' \<le> c \<and> c \<le> CHR ''z'')
     \<or> (CHR ''0'' \<le> c \<and> c \<le> CHR ''9'')"

text \<open>
  A line is the list of its characters before the terminating NUL; \<open>char_at line i\<close> is
  \<open>line[i]\<close>, the terminator included. A cursor (\<open>it\<close>, \<open>*iter\<close>) is an offset into the line.
\<close>

definition char_at :: "string \<Rightarrow> nat \<Rightarrow> char" where
  "char_at line i = (if i < length line then line ! i else CHR 0x00)"

text \<open>\<open>while (*it==' ' || *it=='\t') it += 1;\<close>\<close>

definition skip_blanks :: "string \<Rightarrow> nat \<Rightarrow> nat" where
  "skip_blanks line it0 =
     it0 + length (takeWhile (\<lambda>c. c = CHR '' '' \<or> c = CHR 0x09) (drop it0 line))"

text \<open>\<open>do{ it += 1; } while (is_alnum(*it));\<close>\<close>

definition skip_alnum :: "string \<Rightarrow> nat \<Rightarrow> nat" where
  "skip_alnum line it0 = it0 + 1 + length (takeWhile is_alnum (drop (it0 + 1) line))"

definition get_token :: "'d double_ops \<Rightarrow> string \<Rightarrow> nat \<Rightarrow> 'd Node \<times> nat" where
  "get_token A line iter =
    (let it0 = skip_blanks line iter;
         res = \<lparr>n_type = NT_Global, n_size = 0, n_pos = it0 mod 2 ^ 32, n_name = [],
                n_error = [], n_real = fp_zero A\<rparr>;
         c = char_at line it0
     in if c = CHR 0x00 \<or> c = CHR 0x0A then (res\<lparr>n_type := NT_Newline\<rparr>, it0 + 1)
        else if CHR ''0'' \<le> c \<and> c \<le> CHR ''9'' then
          (case strtod A (drop it0 line) of
             (v, n) \<Rightarrow> (res\<lparr>n_type := NT_Number, n_real := v\<rparr>, it0 + n))
        else if c = CHR ''('' then (res\<lparr>n_type := NT_OpenPar\<rparr>, it0 + 1)
        else if c = CHR '')'' then (res\<lparr>n_type := NT_ClosePar\<rparr>, it0 + 1)
        else if c = CHR ''+'' then (res\<lparr>n_type := NT_Add\<rparr>, it0 + 1)
        else if c = CHR ''-'' then (res\<lparr>n_type := NT_Subtract\<rparr>, it0 + 1)
        else if c = CHR ''*'' then (res\<lparr>n_type := NT_Multiply\<rparr>, it0 + 1)
        else if c = CHR ''/'' then (res\<lparr>n_type := NT_Divide\<rparr>, it0 + 1)
        else if c = CHR ''^'' then (res\<lparr>n_type := NT_Power\<rparr>, it0 + 1)
        else if c = CHR ''!'' then (res\<lparr>n_type := NT_Factorial\<rparr>, it0 + 1)
        else if is_character c then
          (let it1 = skip_alnum line it0;
               sz = (it1 - it0) mod 2 ^ 16
           in if sz > 64
              then (res\<lparr>n_type := NT_Error, n_size := sz, n_name := drop it0 line,
                         n_error := ''identifier name too long''\<rparr>, it1)
              else (res\<lparr>n_type := NT_Identifier, n_size := sz, n_name := drop it0 line\<rparr>, it1))
        else (res\<lparr>n_type := NT_Error, n_error := ''unrecognized token''\<rparr>, it0))"

section \<open>The symbol table\<close>

text \<open>
  \<open>memcmp(a, b, n) == 0\<close> on two C strings: their first \<open>n\<close> bytes agree.
\<close>

definition memcmp_eq :: "string \<Rightarrow> string \<Rightarrow> nat \<Rightarrow> bool" where
  "memcmp_eq a b n \<longleftrightarrow> take n a = take n b"

fun get_identifier :: "'d SymbolTable \<Rightarrow> string \<Rightarrow> nat \<Rightarrow> 'd Value" where
  "get_identifier [] name name_size = DT_Error ''identifier not found'' 0"
| "get_identifier (s # symbols) name name_size =
     (if s_name_size s = name_size \<and> memcmp_eq (s_name s) name name_size
      then s_value s
      else get_identifier symbols name name_size)"

text \<open>
  The first loop of \<open>set_identifier\<close>: the table with the value of the first matching
  entry overwritten, or \<open>None\<close> when the loop ends without a match.
\<close>

fun overwrite :: "'d SymbolTable \<Rightarrow> string \<Rightarrow> nat \<Rightarrow> 'd Value \<Rightarrow> 'd SymbolTable option" where
  "overwrite [] name name_size v = None"
| "overwrite (s # symbols) name name_size v =
     (if s_name_size s = name_size \<and> memcmp_eq (s_name s) name name_size
      then Some (s\<lparr>s_value := v\<rparr> # symbols)
      else map_option ((#) s) (overwrite symbols name name_size v))"

text \<open>
  \<open>set_identifier\<close> has no capacity test: after the loop it writes the three arrays at
  index \<open>symbol_count\<close>, whatever that is. \<open>name_sizes\<close> is an array of \<open>uint8_t\<close>.
\<close>

definition set_identifier ::
  "'d SymbolTable \<Rightarrow> string \<Rightarrow> nat \<Rightarrow> 'd Value \<Rightarrow> fault + 'd SymbolTable" where
  "set_identifier symbols name name_size v =
     (case overwrite symbols name name_size v of
        Some symbols' \<Rightarrow> Inr symbols'
      | None \<Rightarrow>
          (let count = length symbols
           in if count < SYMBOL_CAPACITY
              then Inr (symbols @ [\<lparr>s_name = name, s_name_size = name_size mod 2 ^ 8, s_value = v\<rparr>])
              else Inl (Out_of_bounds Arr_symbols count)))"

section \<open>The evaluator\<close>

record Precedence =
  left :: nat
  right :: nat

fun get_prec :: "NodeType \<Rightarrow> Precedence" where
  "get_prec NT_Newline = \<lparr>left = 1, right = 0\<rparr>"
| "get_prec NT_Global = \<lparr>left = 0, right = 0\<rparr>"
| "get_prec NT_ClosePar = \<lparr>left = 1, right = 0\<rparr>"
| "get_prec NT_OpenPar = \<lparr>left = 99, right = 0\<rparr>"
| "get_prec NT_Minus = \<lparr>left = 59, right = 59\<rparr>"
| "get_prec NT_Add = \<lparr>left = 50, right = 50\<rparr>"
| "get_prec NT_Subtract = \<lparr>left = 50, right = 50\<rparr>"
| "get_prec NT_Multiply = \<lparr>left = 55, right = 55\<rparr>"
| "get_prec NT_Divide = \<lparr>left = 55, right = 55\<rparr>"
| "get_prec NT_Power = \<lparr>left = 61, right = 60\<rparr>"
| "get_prec NT_Factorial = \<lparr>left = 62, right = 62\<rparr>"
| "get_prec _ = \<lparr>left = 255, right = 255\<rparr>"

text \<open>
  The local state of \<open>evaluate_line\<close>: the cursor \<open>it\<close> and the two stacks. Each stack is
  the list of its live elements with the top first: for \<open>opers\<close> of length \<open>opers_size\<close>
  the head is \<open>opers[opers_size-1]\<close> and the last element is \<open>opers[0]\<close>. Both arrays have
  64 slots.
\<close>

record 'd config =
  it :: nat
  opers :: "'d Node list"
  stack :: "'d Value list"

definition STACK_SLOTS :: nat where
  "STACK_SLOTS = 64"

text \<open>
  An index computed in \<open>size_t\<close>: \<open>size - k\<close> wraps around below zero.
\<close>

definition size_t_sub :: "nat \<Rightarrow> nat \<Rightarrow> nat" where
  "size_t_sub n k = (if k \<le> n then n - k else 2 ^ 64 + n - k)"

text \<open>
  \<open>ERROR_VALUE(msg, pos)\<close>: the \<open>uint32_t\<close> position goes into the \<open>uint16_t\<close> field.
\<close>

definition ERROR_VALUE :: "string \<Rightarrow> nat \<Rightarrow> 'd Value" where
  "ERROR_VALUE msg pos = DT_Error msg (pos mod 2 ^ 16)"

text \<open>
  The operand tests shared by the five binary cases of the fold:
  \<open>stack[stack_size-1].type != DT_Real || stack[stack_size-2].type != DT_Real\<close>, read in
  that order. The result is the left operand, the right operand and the stack below them.
\<close>

fun operands :: "'d Value list \<Rightarrow> nat \<Rightarrow> 'd outcome + ('d \<times> 'd \<times> 'd Value list)" where
  "operands [] pos = Inl (Undefined (Out_of_bounds Arr_stack (size_t_sub 0 1)))"
| "operands [DT_Real r] pos = Inl (Undefined (Out_of_bounds Arr_stack (size_t_sub 1 2)))"
| "operands (DT_Real r # DT_Real l # st) pos = Inr (l, r, st)"
| "operands st pos = Inl (Return (ERROR_VALUE ''wrong data type'' pos))"

text \<open>
  The \<open>switch\<close> inside the fold loop, for the operator just popped: the new value stack,
  or the way the call ends.
\<close>

definition apply_operator ::
  "'d double_ops \<Rightarrow> 'd Node \<Rightarrow> 'd Value list \<Rightarrow> 'd outcome + 'd Value list" where
  "apply_operator A oper st =
    (case n_type oper of
       NT_Minus \<Rightarrow>
         (case st of
            [] \<Rightarrow> Inl (Undefined (Out_of_bounds Arr_stack (size_t_sub 0 1)))
          | DT_Real x # st' \<Rightarrow> Inr (DT_Real (fp_neg A x) # st')
          | _ # st' \<Rightarrow> Inl (Return (ERROR_VALUE ''wrong data type'' (n_pos oper))))
     | NT_Add \<Rightarrow>
         (case operands st (n_pos oper) of
            Inl out \<Rightarrow> Inl out
          | Inr (l, r, st') \<Rightarrow> Inr (DT_Real (fp_add A l r) # st'))
     | NT_Subtract \<Rightarrow>
         (case operands st (n_pos oper) of
            Inl out \<Rightarrow> Inl out
          | Inr (l, r, st') \<Rightarrow> Inr (DT_Real (fp_sub A l r) # st'))
     | NT_Multiply \<Rightarrow>
         (case operands st (n_pos oper) of
            Inl out \<Rightarrow> Inl out
          | Inr (l, r, st') \<Rightarrow> Inr (DT_Real (fp_mul A l r) # st'))
     | NT_Divide \<Rightarrow>
         (case operands st (n_pos oper) of
            Inl out \<Rightarrow> Inl out
          | Inr (l, r, st') \<Rightarrow>
              if fp_eq A r (fp_zero A)
              then Inl (Return (ERROR_VALUE ''divide by zero'' (n_pos oper)))
              else Inr (DT_Real (fp_div A l r) # st'))
     | NT_Power \<Rightarrow>
         (case operands st (n_pos oper) of
            Inl out \<Rightarrow> Inl out
          | Inr (l, r, st') \<Rightarrow>
              if fp_lt A l (fp_zero A)
              then Inl (Return (ERROR_VALUE ''negative power base'' (n_pos oper)))
              else Inr (DT_Real (pow A l r) # st'))
     | _ \<Rightarrow> Inl Exit_broken_parser)"

text \<open>
  The loop \<open>for (;;)\<close> of \<open>ExpectOperator\<close>: it leaves when the right precedence of the top
  operator is below the left precedence of the token, and otherwise pops the operator and
  applies it.
\<close>

fun fold_loop ::
  "'d double_ops \<Rightarrow> 'd Node list \<Rightarrow> 'd Value list \<Rightarrow> 'd Node
     \<Rightarrow> 'd outcome + ('d Node list \<times> 'd Value list)" where
  "fold_loop A [] st cur = Inl (Undefined (Out_of_bounds Arr_opers (size_t_sub 0 1)))"
| "fold_loop A (tp # ops) st cur =
     (if right (get_prec (n_type tp)) < left (get_prec (n_type cur)) then Inr (tp # ops, st)
      else
       (case apply_operator A tp st of
          Inl out \<Rightarrow> Inl out
        | Inr st' \<Rightarrow> fold_loop A ops st' cur))"

text \<open>
  One pass through a labelled block ends in a \<open>goto\<close> to one of the two labels, with the
  new local state, or ends the call.
\<close>

datatype 'd step = Goto_ExpectValue "'d config" | Goto_ExpectOperator "'d config" | Halt "'d outcome"

text \<open>
  \<open>opers[opers_size] = curr; opers_size += 1;\<close> (the token \<open>curr\<close> of the source is
  \<open>cur\<close> here).
\<close>

definition push_oper :: "'d config \<Rightarrow> nat \<Rightarrow> 'd Node \<Rightarrow> 'd step" where
  "push_oper c it' cur =
     (if length (opers c) < STACK_SLOTS
      then Goto_ExpectValue (c\<lparr>it := it', opers := cur # opers c\<rparr>)
      else Halt (Undefined (Out_of_bounds Arr_opers (length (opers c)))))"

definition ExpectValue :: "'d double_ops \<Rightarrow> 'd SymbolTable \<Rightarrow> string \<Rightarrow> 'd config \<Rightarrow> 'd step" where
  "ExpectValue A symbols line c =
    (case get_token A line (it c) of (cur, it') \<Rightarrow>
      if n_type cur = NT_Error then Halt (Return (ERROR_VALUE (n_error cur) (n_pos cur)))
      else
       (case n_type cur of
          NT_OpenPar \<Rightarrow> push_oper c it' cur
        | NT_Add \<Rightarrow> Goto_ExpectValue (c\<lparr>it := it'\<rparr>)
        | NT_Subtract \<Rightarrow> push_oper c it' (cur\<lparr>n_type := NT_Minus\<rparr>)
        | NT_Identifier \<Rightarrow>
            if length (stack c) < STACK_SLOTS
            then (case get_identifier symbols (n_name cur) (n_size cur) of
                    DT_Error msg sz \<Rightarrow> Halt (Return (DT_Error msg (n_pos cur mod 2 ^ 16)))
                  | v \<Rightarrow> Goto_ExpectOperator (c\<lparr>it := it', stack := v # stack c\<rparr>))
            else Halt (Undefined (Out_of_bounds Arr_stack (length (stack c))))
        | NT_Number \<Rightarrow>
            if length (stack c) < STACK_SLOTS
            then Goto_ExpectOperator (c\<lparr>it := it', stack := DT_Real (n_real cur) # stack c\<rparr>)
            else Halt (Undefined (Out_of_bounds Arr_stack (length (stack c))))
        | _ \<Rightarrow> Halt (Return (ERROR_VALUE ''expected value'' (n_pos cur)))))"

text \<open>
  The \<open>switch\<close> of \<open>ExpectOperator\<close> after the fold loop, on the stacks the loop left.
\<close>

definition after_fold ::
  "'d double_ops \<Rightarrow> 'd Node \<Rightarrow> nat \<Rightarrow> 'd Node list \<Rightarrow> 'd Value list \<Rightarrow> 'd step" where
  "after_fold A cur it' ops st =
    (let c = \<lparr>it = it', opers = ops, stack = st\<rparr> in
     if n_type cur \<in> {NT_Add, NT_Subtract, NT_Multiply, NT_Divide, NT_Power}
     then push_oper c it' cur
     else
      (case n_type cur of
         NT_Factorial \<Rightarrow>
           (case st of
              [] \<Rightarrow> Halt (Undefined (Out_of_bounds Arr_stack (size_t_sub 0 1)))
            | DT_Real x # st' \<Rightarrow>
                if fp_lt A x (fp_zero A)
                then Halt (Return (ERROR_VALUE ''factorial of negative number'' (n_pos cur)))
                else Goto_ExpectOperator (c\<lparr>stack := DT_Real (tgamma A (fp_add A (fp_one A) x)) # st'\<rparr>)
            | _ # st' \<Rightarrow> Halt (Return (ERROR_VALUE ''wrong data type'' (n_pos cur))))
       | NT_Newline \<Rightarrow>
           if length ops \<noteq> 1 then Halt (Return (ERROR_VALUE ''parenthesis not closed'' (n_pos cur)))
           else if st = [] then Halt (Undefined (Uninitialised Arr_stack 0))
           else Halt (Return (last st))
       | NT_ClosePar \<Rightarrow>
           (case ops of
              [] \<Rightarrow> Halt (Undefined (Out_of_bounds Arr_opers (size_t_sub 0 1)))
            | tp # ops' \<Rightarrow>
                if n_type tp \<noteq> NT_OpenPar
                then Halt (Return (ERROR_VALUE ''mismatched parenthesis'' (n_pos cur)))
                else Goto_ExpectOperator (c\<lparr>opers := ops'\<rparr>))
       | _ \<Rightarrow> Halt (Return (ERROR_VALUE ''expected operator'' (n_pos cur)))))"

definition ExpectOperator :: "'d double_ops \<Rightarrow> string \<Rightarrow> 'd config \<Rightarrow> 'd step" where
  "ExpectOperator A line c =
    (case get_token A line (it c) of (cur, it') \<Rightarrow>
      if n_type cur = NT_Error then Halt (Return (ERROR_VALUE (n_error cur) (n_pos cur)))
      else
       (case fold_loop A (opers c) (stack c) cur of
          Inl out \<Rightarrow> Halt out
        | Inr (ops, st) \<Rightarrow> after_fold A cur it' ops st))"

text \<open>
  The two labelled blocks jump to each other until one of them ends the call. Every jump
  but one follows a token of at least one character, and the jump after a number leads
  from \<open>ExpectValue\<close> to \<open>ExpectOperator\<close>, so the jumps are bounded by the length of
  the line whatever \<open>strtod\<close> reports as consumed.
\<close>

fun step_measure :: "string \<Rightarrow> 'd step \<Rightarrow> nat" where
  "step_measure line (Halt out) = 0"
| "step_measure line (Goto_ExpectValue c) = 2 * (length line - it c) + 2"
| "step_measure line (Goto_ExpectOperator c) = 2 * (length line - it c) + 1"

function run :: "'d double_ops \<Rightarrow> 'd SymbolTable \<Rightarrow> string \<Rightarrow> 'd step \<Rightarrow> 'd outcome" where
  "run A symbols line (Halt out) = out"
| "run A symbols line (Goto_ExpectValue c) = run A symbols line (ExpectValue A symbols line c)"
| "run A symbols line (Goto_ExpectOperator c) = run A symbols line (ExpectOperator A line c)"
  by pat_completeness auto
termination
proof (relation "measure (\<lambda>(A :: 'd double_ops, symbols :: 'd SymbolTable, line, s).
    step_measure line s)")
  have blanks: "i \<le> skip_blanks line i" for line i
    by (simp add: skip_blanks_def)
  have in_line: "i < length line" if "char_at line i \<noteq> CHR 0x00" for line i
    using that by (simp add: char_at_def split: if_splits)
  have alnum: "skip_alnum line i \<le> length line" if "i < length line" for line i
  proof -
    have "length (takeWhile is_alnum (drop (i + 1) line)) \<le> length (drop (i + 1) line)"
      by (rule length_takeWhile_le)
    with that show ?thesis by (simp add: skip_alnum_def)
  qed
  have number: "n_type cur = NT_Number \<longrightarrow> length line - i' \<le> length line - i"
    and other: "n_type cur \<notin> {NT_Number, NT_Error, NT_Newline}
      \<longrightarrow> length line - i' < length line - i"
    if "get_token A line i = (cur, i')" for A :: "'d double_ops" and line i cur i'
    using that blanks [of i line] alnum [of "skip_blanks line i" line]
      in_line [of line "skip_blanks line i"]
    by (auto simp: get_token_def Let_def skip_alnum_def split: if_splits prod.splits)
  have push: "step_measure line (push_oper c i' cur) \<le> 2 * (length line - i)"
    if "length line - i' < length line - i" for line i i' and c :: "'d config" and cur
    using that by (simp add: push_oper_def)
  have value_step:
    "step_measure line (ExpectValue A symbols line c) < 2 * (length line - it c) + 2"
    for A :: "'d double_ops" and symbols line c
  proof -
    obtain cur i' where tok: "get_token A line (it c) = (cur, i')"
      by (cases "get_token A line (it c)")
    note adv = number [OF tok] other [OF tok]
    show ?thesis
    proof (cases "n_type cur")
      case NT_OpenPar
      with adv push [of line i' "it c" c cur] show ?thesis
        by (simp add: ExpectValue_def tok)
    next
      case NT_Subtract
      with adv push [of line i' "it c" c "cur\<lparr>n_type := NT_Minus\<rparr>"] show ?thesis
        by (simp add: ExpectValue_def tok)
    next
      case NT_Add
      with adv show ?thesis
        by (simp add: ExpectValue_def tok)
    next
      case NT_Identifier
      with adv show ?thesis
        by (simp add: ExpectValue_def tok split: Value.splits)
    next
      case NT_Number
      with adv show ?thesis
        by (simp add: ExpectValue_def tok)
    qed (simp_all add: ExpectValue_def tok)
  qed
  have switch: "step_measure line (after_fold A cur i' ops st) < 2 * (length line - i) + 1"
    if adv: "n_type cur \<notin> {NT_Number, NT_Error, NT_Newline}
      \<longrightarrow> length line - i' < length line - i"
    for A :: "'d double_ops" and line i cur i' ops st
  proof (cases "n_type cur \<in> {NT_Add, NT_Subtract, NT_Multiply, NT_Divide, NT_Power}")
    case True
    with adv have "length line - i' < length line - i"
      by auto
    from push [OF this, of "\<lparr>it = i', opers = ops, stack = st\<rparr>" cur] True
    show ?thesis
      by (simp add: after_fold_def Let_def)
  next
    case False
    with adv show ?thesis
      by (cases "n_type cur")
        (simp_all add: after_fold_def Let_def split: list.splits Value.splits)
  qed
  have operator_step:
    "step_measure line (ExpectOperator A line c) < 2 * (length line - it c) + 1"
    for A :: "'d double_ops" and line c
  proof -
    obtain cur i' where tok: "get_token A line (it c) = (cur, i')"
      by (cases "get_token A line (it c)")
    show ?thesis
      using switch [OF other [OF tok]]
      by (simp add: ExpectOperator_def tok split: sum.splits)
  qed
  show "wf (measure (\<lambda>(A :: 'd double_ops, symbols :: 'd SymbolTable, line, s).
      step_measure line s))"
    by simp
  show "((A, symbols, line, ExpectValue A symbols line c), (A, symbols, line, Goto_ExpectValue c))
      \<in> measure (\<lambda>(A, symbols, line, s). step_measure line s)"
    for A :: "'d double_ops" and symbols line c
    using value_step [of line A symbols c] by simp
  show "((A, symbols, line, ExpectOperator A line c), (A, symbols, line, Goto_ExpectOperator c))
      \<in> measure (\<lambda>(A, symbols, line, s). step_measure line s)"
    for A :: "'d double_ops" and symbols :: "'d SymbolTable" and line c
    using operator_step [of line A c] by simp
qed

text \<open>
  \<open>evaluate_line\<close>: \<open>opers[0] = (Node){.type = NT_Global}\<close>, \<open>opers_size = 1\<close>,
  \<open>stack_size = 0\<close>, and the first block is \<open>ExpectValue\<close>.
\<close>

definition evaluate_line :: "'d double_ops \<Rightarrow> 'd SymbolTable \<Rightarrow> string \<Rightarrow> 'd outcome" where
  "evaluate_line A symbols line =
     run A symbols line
       (Goto_ExpectValue
          \<lparr>it = 0,
           opers = [\<lparr>n_type = NT_Global, n_size = 0, n_pos = 0, n_name = [], n_error = [],
                     n_real = fp_zero A\<rparr>],
           stack = []\<rparr>)"

section \<open>The program\<close>

text \<open>
  The table \<open>main\<close> builds before it reads the first line: \<open>SymbolTable symbols = {0}\<close>
  and two calls of \<open>set_identifier\<close>.
\<close>

definition main_symbols :: "'d double_ops \<Rightarrow> fault + 'd SymbolTable" where
  "main_symbols A =
     (case set_identifier [] ''e'' 1 (DT_Real (M_E A)) of
        Inl f \<Rightarrow> Inl f
      | Inr symbols \<Rightarrow> set_identifier symbols ''pi'' 2 (DT_Real (M_PI A)))"

text \<open>
  What \<open>main\<close> computes for one line read by \<open>fgets\<close>: the \<open>Value\<close> it then prints.
\<close>

definition main_line :: "'d double_ops \<Rightarrow> string \<Rightarrow> 'd outcome" where
  "main_line A line =
     (case main_symbols A of
        Inl f \<Rightarrow> Undefined f
      | Inr symbols \<Rightarrow> evaluate_line A symbols line)"

section \<open>Doubles without rounding\<close>

text \<open>
  To run the evaluator on a line the operations need values. \<open>real_ops\<close> reads a double
  as the real number it stands for and an operation as the exact one: no rounding, no
  infinity, no NaN. On the small integers and short decimals of the lines evaluated below
  the two agree.
\<close>

definition is_digit :: "char \<Rightarrow> bool" where
  "is_digit c \<longleftrightarrow> CHR ''0'' \<le> c \<and> c \<le> CHR ''9''"

definition decimal :: "string \<Rightarrow> nat" where
  "decimal ds = foldl (\<lambda>n c. 10 * n + (of_char c - 48)) 0 ds"

text \<open>
  Modelled from the spec: \<open>strtod\<close> is a function of the C library. The lexer hands it
  a text that starts with a decimal digit, and it converts the longest prefix that is a
  floating-point literal: digits, an optional fractional part, an optional exponent (which
  counts only when it has a digit). The hexadecimal literals of C99 are left out. The
  exponent part of a text is returned with the number of characters it takes.
\<close>

definition exponent_part :: "string \<Rightarrow> int \<times> nat" where
  "exponent_part s =
     (case s of
        [] \<Rightarrow> (0, 0)
      | c # t \<Rightarrow>
          if c = CHR ''e'' \<or> c = CHR ''E'' then
            (let signed = (t \<noteq> [] \<and> (hd t = CHR ''+'' \<or> hd t = CHR ''-''));
                 ds = takeWhile is_digit (if signed then tl t else t)
             in if ds = [] then (0, 0)
                else if signed \<and> hd t = CHR ''-''
                  then (- int (decimal ds), 2 + length ds)
                  else (int (decimal ds), (if signed then 2 else 1) + length ds))
          else (0, 0))"

definition strtod_real :: "string \<Rightarrow> real \<times> nat" where
  "strtod_real s =
     (let ip = takeWhile is_digit s;
          r1 = drop (length ip) s;
          dot = (r1 \<noteq> [] \<and> hd r1 = CHR ''.'');
          fp = (if dot then takeWhile is_digit (tl r1) else []);
          n = length ip + (if dot then 1 + length fp else 0);
          m = real (decimal (ip @ fp)) / 10 ^ length fp
      in case exponent_part (drop n s) of
           (ex, k) \<Rightarrow> ((if 0 \<le> ex then m * 10 ^ nat ex else m / 10 ^ nat (- ex)), n + k))"

text \<open>
  Modelled from the spec: \<open>pow\<close> is a function of the C library. The evaluator calls it
  with a base that is not negative; \<open>pow(x, 0)\<close> is 1 for every \<open>x\<close>.
\<close>

definition pow_real :: "real \<Rightarrow> real \<Rightarrow> real" where
  "pow_real x y = (if y = 0 then 1 else x powr y)"

text \<open>
  Modelled from the spec: \<open>tgamma\<close> is a function of the C library, the gamma function,
  here as the limit of Euler's products.
\<close>

definition tgamma_real :: "real \<Rightarrow> real" where
  "tgamma_real x = lim (\<lambda>n. fact n * real n powr x / (\<Prod>k = 0..n. x + real k))"

text \<open>
  Modelled from the spec: \<open>M_E\<close> and \<open>M_PI\<close> are macros of \<open>math.h\<close>; the values are the
  decimals the specification gives for the two doubles.
\<close>

definition real_ops :: "real double_ops" where
  "real_ops =
     \<lparr>fp_zero = 0, fp_one = 1, fp_eq = (=), fp_lt = (<), fp_neg = uminus, fp_add = (+),
      fp_sub = (-), fp_mul = (*), fp_div = (/), strtod = strtod_real, pow = pow_real,
      tgamma = tgamma_real, M_E = 2.718281828459045, M_PI = 3.141592653589793\<rparr>"

section \<open>Predicates on the local state\<close>

text \<open>
  The kinds of node \<open>evaluate_line\<close> stores in \<open>opers\<close>: the sentinel, an open parenthesis,
  a unary minus and the five binary operators.
\<close>

definition pushable :: "NodeType \<Rightarrow> bool" where
  "pushable t \<longleftrightarrow>
     t \<in> {NT_Global, NT_OpenPar, NT_Minus, NT_Add, NT_Subtract, NT_Multiply, NT_Divide, NT_Power}"

definition opers_ok :: "'d Node list \<Rightarrow> bool" where
  "opers_ok ops \<longleftrightarrow> list_all (\<lambda>n. pushable (n_type n)) ops"

fun is_real :: "'d Value \<Rightarrow> bool" where
  "is_real (DT_Real x) \<longleftrightarrow> True"
| "is_real v \<longleftrightarrow> False"

text \<open>
  The message and the offset \<open>main\<close> prints for an outcome that is an error \<open>Value\<close>.
\<close>

fun error_message :: "'d outcome \<Rightarrow> string option" where
  "error_message (Return (DT_Error msg sz)) = Some msg"
| "error_message out = None"

fun error_offset :: "'d outcome \<Rightarrow> nat option" where
  "error_offset (Return (DT_Error msg sz)) = Some sz"
| "error_offset out = None"

fun well_typed :: "'d step \<Rightarrow> bool" where
  "well_typed (Halt out) \<longleftrightarrow>
     out \<noteq> Return DT_Void \<and> error_message out \<noteq> Some ''wrong data type''"
| "well_typed (Goto_ExpectValue c) \<longleftrightarrow> list_all is_real (stack c)"
| "well_typed (Goto_ExpectOperator c) \<longleftrightarrow> list_all is_real (stack c)"


text \<open>
  The bookkeeping of the two stacks: \<open>pending ops\<close> counts the binary operators in
  \<open>opers\<close>, each of which waits for two operands; \<open>opers_inv\<close> says that \<open>opers\<close> fits its
  array and has the sentinel at index 0. Between two blocks the value stack holds one value
  for each pending binary operator, and one more when an operator is expected next.
\<close>

definition is_binary :: "NodeType \<Rightarrow> bool" where
  "is_binary t \<longleftrightarrow> t \<in> {NT_Add, NT_Subtract, NT_Multiply, NT_Divide, NT_Power}"

definition pending :: "'d Node list \<Rightarrow> nat" where
  "pending ops = length (filter (\<lambda>n. is_binary (n_type n)) ops)"

definition opers_inv :: "'d Node list \<Rightarrow> bool" where
  "opers_inv ops \<longleftrightarrow>
     opers_ok ops \<and> ops \<noteq> [] \<and> n_type (last ops) = NT_Global \<and> length ops \<le> STACK_SLOTS"

fun in_bounds :: "'d step \<Rightarrow> bool" where
  "in_bounds (Halt (Return v)) \<longleftrightarrow> True"
| "in_bounds (Halt Exit_broken_parser) \<longleftrightarrow> False"
| "in_bounds (Halt (Undefined f)) \<longleftrightarrow> f = Out_of_bounds Arr_opers STACK_SLOTS"
| "in_bounds (Goto_ExpectValue c) \<longleftrightarrow>
     opers_inv (opers c) \<and> length (stack c) = pending (opers c)"
| "in_bounds (Goto_ExpectOperator c) \<longleftrightarrow>
     opers_inv (opers c) \<and> length (stack c) = pending (opers c) + 1"

text \<open>
  The states a call \<open>evaluate_line(symbols, line)\<close> passes through: the entry into
  \<open>ExpectValue\<close> with the initial stacks, and what each block reached leads to. A call
  that writes outside an array ends there, so these are the states of the call up to
  its first such write.
\<close>

inductive reaches :: "'d double_ops \<Rightarrow> 'd SymbolTable \<Rightarrow> string \<Rightarrow> 'd step \<Rightarrow> bool"
  for A :: "'d double_ops" and symbols :: "'d SymbolTable" and line :: string where
  from_start:
    "reaches A symbols line
       (Goto_ExpectValue
          \<lparr>it = 0,
           opers = [\<lparr>n_type = NT_Global, n_size = 0, n_pos = 0, n_name = [], n_error = [],
                     n_real = fp_zero A\<rparr>],
           stack = []\<rparr>)"
| through_ExpectValue:
    "reaches A symbols line (Goto_ExpectValue c)
      \<Longrightarrow> reaches A symbols line (ExpectValue A symbols line c)"
| through_ExpectOperator:
    "reaches A symbols line (Goto_ExpectOperator c)
      \<Longrightarrow> reaches A symbols line (ExpectOperator A line c)"

text \<open>
  Every node pushed on \<open>opers\<close> comes from one character of the line, one of
  \<open>( + - * / ^\<close>, so the number of these characters bounds the depth of the operator
  stack: \<open>roomy\<close> says that the stack holds, besides the sentinel, at most as many nodes
  as such characters lie before the cursor.
\<close>

definition operator_chars :: "string \<Rightarrow> nat" where
  "operator_chars line = length (filter (\<lambda>c. c \<in> set ''(+-*/^'') line)"

fun roomy :: "string \<Rightarrow> 'd step \<Rightarrow> bool" where
  "roomy line (Halt out) \<longleftrightarrow> out \<noteq> Undefined (Out_of_bounds Arr_opers STACK_SLOTS)"
| "roomy line (Goto_ExpectValue c) \<longleftrightarrow>
     length (opers c) \<le> 1 + operator_chars (take (it c) line)"
| "roomy line (Goto_ExpectOperator c) \<longleftrightarrow>
     length (opers c) \<le> 1 + operator_chars (take (it c) line)"



section \<open>Tokens and precedences\<close>

lemma token_not_global: "n_type (fst (get_token A line i)) \<noteq> NT_Global"
  by (simp add: get_token_def Let_def split: prod.splits)

lemma left_prec_pos: "t \<noteq> NT_Global \<Longrightarrow> 1 \<le> left (get_prec t)"
  by (cases t) simp_all

section \<open>The values on the stack are reals\<close>

lemma main_symbols_eq:
  "main_symbols A =
     Inr [\<lparr>s_name = ''e'', s_name_size = 1, s_value = DT_Real (M_E A)\<rparr>,
          \<lparr>s_name = ''pi'', s_name_size = 2, s_value = DT_Real (M_PI A)\<rparr>]"
  by (simp add: main_symbols_def set_identifier_def SYMBOL_CAPACITY_def memcmp_eq_def)

lemma token_error_message:
  "get_token A line i = (cur, i') \<Longrightarrow> n_type cur = NT_Error
    \<Longrightarrow> n_error cur = ''identifier name too long'' \<or> n_error cur = ''unrecognized token''"
  by (auto simp: get_token_def Let_def split: if_splits prod.splits)

lemma get_identifier_real:
  "list_all (\<lambda>s. is_real (s_value s)) symbols
    \<Longrightarrow> get_identifier symbols name n = DT_Error ''identifier not found'' 0
      \<or> is_real (get_identifier symbols name n)"
  by (induction symbols) simp_all

lemma operands_real:
  "list_all is_real st \<Longrightarrow> operands st pos = Inl out \<Longrightarrow> (\<exists>f. out = Undefined f)"
  by (induction st pos rule: operands.induct) auto

lemma operands_rest:
  "list_all is_real st \<Longrightarrow> operands st pos = Inr (l, r, st') \<Longrightarrow> list_all is_real st'"
  by (induction st pos rule: operands.induct) simp_all

lemma apply_operator_real:
  assumes "list_all is_real st"
  shows "apply_operator A oper st = Inl out \<longrightarrow> well_typed (Halt out)"
    and "apply_operator A oper st = Inr st' \<longrightarrow> list_all is_real st'"
proof -
  have binary: "well_typed (Halt out)" if "operands st (n_pos oper) = Inl out" for out
    using operands_real [OF assms that] by auto
  show "apply_operator A oper st = Inl out \<longrightarrow> well_typed (Halt out)"
    using assms binary
    by (cases "n_type oper")
      (auto simp: apply_operator_def ERROR_VALUE_def
        split: sum.splits list.splits Value.splits if_splits)
  show "apply_operator A oper st = Inr st' \<longrightarrow> list_all is_real st'"
    using assms operands_rest [OF assms]
    by (cases "n_type oper")
      (auto simp: apply_operator_def split: sum.splits list.splits Value.splits if_splits)
qed

lemma fold_loop_real:
  "list_all is_real st \<Longrightarrow>
     (\<forall>out. fold_loop A ops st cur = Inl out \<longrightarrow> well_typed (Halt out))
     \<and> (\<forall>ops' st'. fold_loop A ops st cur = Inr (ops', st') \<longrightarrow> list_all is_real st')"
proof (induction ops arbitrary: st)
  case Nil
  then show ?case by simp
next
  case (Cons tp ops)
  show ?case
  proof (cases "right (get_prec (n_type tp)) < left (get_prec (n_type cur))")
    case True
    with Cons.prems show ?thesis by simp
  next
    case False
    show ?thesis
    proof (cases "apply_operator A tp st")
      case (Inl out)
      with False apply_operator_real(1) [OF Cons.prems, of A tp out] show ?thesis
        by simp
    next
      case (Inr st')
      with apply_operator_real(2) [OF Cons.prems, of A tp st'] have "list_all is_real st'"
        by simp
      from Cons.IH [OF this] False Inr show ?thesis
        by simp
    qed
  qed
qed

lemma ExpectValue_well_typed:
  assumes table: "list_all (\<lambda>s. is_real (s_value s)) symbols"
    and st: "list_all is_real (stack c)"
  shows "well_typed (ExpectValue A symbols line c)"
proof -
  obtain cur i' where tok: "get_token A line (it c) = (cur, i')"
    by (cases "get_token A line (it c)")
  show ?thesis
  proof (cases "n_type cur")
    case NT_Error
    with token_error_message [OF tok] show ?thesis
      by (auto simp: ExpectValue_def tok ERROR_VALUE_def)
  next
    case NT_Identifier
    with st get_identifier_real [OF table, of "n_name cur" "n_size cur"] show ?thesis
      by (auto simp: ExpectValue_def tok split: Value.splits)
  qed (use st in \<open>simp_all add: ExpectValue_def tok ERROR_VALUE_def push_oper_def\<close>)
qed

lemma return_real_well_typed: "is_real v \<Longrightarrow> well_typed (Halt (Return v))"
  by (cases v) simp_all

lemma last_real: "list_all is_real st \<Longrightarrow> st \<noteq> [] \<Longrightarrow> is_real (last st)"
  by (simp add: list_all_iff)

lemma after_fold_well_typed:
  assumes "list_all is_real st"
  shows "well_typed (after_fold A cur i' ops st)"
proof (cases "n_type cur = NT_Newline")
  case True
  with return_real_well_typed [OF last_real [OF assms]] show ?thesis
    by (simp add: after_fold_def ERROR_VALUE_def)
next
  case False
  with assms show ?thesis
    by (cases "n_type cur")
      (auto simp: after_fold_def Let_def push_oper_def ERROR_VALUE_def
        split: list.splits Value.splits)
qed

lemma ExpectOperator_well_typed:
  assumes "list_all is_real (stack c)"
  shows "well_typed (ExpectOperator A line c)"
proof -
  obtain cur i' where tok: "get_token A line (it c) = (cur, i')"
    by (cases "get_token A line (it c)")
  show ?thesis
  proof (cases "n_type cur = NT_Error")
    case True
    with token_error_message [OF tok] show ?thesis
      by (auto simp: ExpectOperator_def tok ERROR_VALUE_def)
  next
    case False
    with fold_loop_real [OF assms, of A "opers c" cur] after_fold_well_typed show ?thesis
      by (auto simp: ExpectOperator_def tok split: sum.splits)
  qed
qed

lemma run_well_typed:
  "list_all (\<lambda>s. is_real (s_value s)) symbols \<Longrightarrow> well_typed s
    \<Longrightarrow> well_typed (Halt (run A symbols line s))"
proof (induction A symbols line s rule: run.induct)
  case (1 A symbols line out)
  then show ?case by simp
next
  case (2 A symbols line c)
  then show ?case by (simp add: ExpectValue_well_typed)
next
  case (3 A symbols line c)
  then show ?case by (simp add: ExpectOperator_well_typed)
qed

lemma evaluate_line_well_typed:
  assumes "list_all (\<lambda>s. is_real (s_value s)) symbols"
  shows "well_typed (Halt (evaluate_line A symbols line))"
  unfolding evaluate_line_def
  by (rule run_well_typed [OF assms]) simp

section \<open>Lines evaluated\<close>

text \<open>
  The definitions that evaluating a given line unfolds.
\<close>

lemmas eval_defs =
  evaluate_line_def ExpectValue_def ExpectOperator_def after_fold_def push_oper_def
  get_token_def skip_blanks_def skip_alnum_def char_at_def is_character_def is_alnum_def
  apply_operator_def ERROR_VALUE_def STACK_SLOTS_def real_ops_def
  strtod_real_def is_digit_def decimal_def exponent_part_def pow_real_def Let_def
  main_line_def main_symbols_eq memcmp_eq_def

text \<open>
  C1: the precedence table gives add and subtract \<open>{50, 50}\<close>, multiply and divide
  \<open>{55, 55}\<close> and power \<open>{61, 60}\<close>; the fold loop pops and applies the top operator
  exactly when its right precedence is at least the left precedence of the token read, and
  leaves otherwise. With the arithmetic of the reals, \<open>main\<close> evaluates \<open>2 - 3 - 4\<close> to
  \<open>-5\<close>, \<open>2 ^ 3 ^ 2\<close> to \<open>512\<close>, \<open>2 + 3 * 4\<close> to \<open>14\<close> and \<open>(2 + 3) * 4\<close> to \<open>20\<close>.
\<close>

theorem precedence_folding:
  "get_prec NT_Add = \<lparr>left = 50, right = 50\<rparr> \<and> get_prec NT_Subtract = \<lparr>left = 50, right = 50\<rparr>
   \<and> get_prec NT_Multiply = \<lparr>left = 55, right = 55\<rparr>
   \<and> get_prec NT_Divide = \<lparr>left = 55, right = 55\<rparr>
   \<and> get_prec NT_Power = \<lparr>left = 61, right = 60\<rparr>
   \<and> fold_loop A (tp # ops) st cur =
       (if left (get_prec (n_type cur)) \<le> right (get_prec (n_type tp))
        then (case apply_operator A tp st of
                Inl out \<Rightarrow> Inl out
              | Inr st' \<Rightarrow> fold_loop A ops st' cur)
        else Inr (tp # ops, st))
   \<and> main_line real_ops ''2 - 3 - 4'' = Return (DT_Real (- 5))
   \<and> main_line real_ops ''2 ^ 3 ^ 2'' = Return (DT_Real 512)
   \<and> main_line real_ops ''2 + 3 * 4'' = Return (DT_Real 14)
   \<and> main_line real_ops ''(2 + 3) * 4'' = Return (DT_Real 20)"
proof -
  have "main_line real_ops ''2 - 3 - 4'' = Return (DT_Real (- 5))"
    by (simp add: eval_defs)
  moreover have "main_line real_ops ''2 ^ 3 ^ 2'' = Return (DT_Real 512)"
    by (simp add: eval_defs)
  moreover have "main_line real_ops ''2 + 3 * 4'' = Return (DT_Real 14)"
    by (simp add: eval_defs)
  moreover have "main_line real_ops ''(2 + 3) * 4'' = Return (DT_Real 20)"
    by (simp add: eval_defs)
  ultimately show ?thesis
    by (simp add: not_less)
qed

text \<open>
  C2, as stated, fails: for the line \<open>1 + (2 *\<close> the message \<open>main\<close> prints is neither of
  the two complaints about a parenthesis, and the offset is not 4, the place of the \<open>(\<close>.
\<close>

theorem unclosed_parenthesis_not_reported:
  "error_message (main_line real_ops ''1 + (2 *'') \<noteq> Some ''parenthesis not closed''
   \<and> error_message (main_line real_ops ''1 + (2 *'') \<noteq> Some ''mismatched parenthesis''
   \<and> error_offset (main_line real_ops ''1 + (2 *'') \<noteq> Some 4"
  by (simp add: eval_defs)

text \<open>
  C2, amended: the line \<open>1 + (2 *\<close> ends where \<open>ExpectValue\<close> wants the right operand of
  \<open>*\<close>, so the error is \<open>expected value\<close> and its offset is 8, the end of the line. With
  the operand there, \<open>1 + (2\<close>, the error is \<open>parenthesis not closed\<close>, and its offset is
  again the end of the line, 6.
\<close>

theorem missing_operand_reported_at_end_of_line:
  "main_line real_ops ''1 + (2 *'' = Return (DT_Error ''expected value'' 8)
   \<and> main_line real_ops ''1 + (2'' = Return (DT_Error ''parenthesis not closed'' 6)"
  by (simp add: eval_defs)

text \<open>
  C6: \<open>1 +\<close> fails with \<open>expected value\<close> at offset 3, the end of the line, and \<open>1 / 0\<close>
  fails with \<open>divide by zero\<close> at offset 2, the place of the \<open>/\<close>.
\<close>

theorem error_offsets_exact:
  "main_line real_ops ''1 +'' = Return (DT_Error ''expected value'' 3)
   \<and> main_line real_ops ''1 / 0'' = Return (DT_Error ''divide by zero'' 2)"
  by (simp add: eval_defs)

text \<open>
  C7: when the fold applies a power whose left operand is below zero the call returns the
  error \<open>negative power base\<close> at the operator's position, and a factorial of an operand
  below zero returns \<open>factorial of negative number\<close> at the position of the \<open>!\<close>. The lines
  \<open>(-1) ^ 0.5\<close> and \<open>(-1)!\<close> fail so whatever \<open>pow\<close> and \<open>tgamma\<close> compute: neither is
  called.
\<close>

theorem negative_operand_guards:
  assumes "fp_lt A x (fp_zero A)"
  shows "apply_operator A (oper\<lparr>n_type := NT_Power\<rparr>) (DT_Real r # DT_Real x # st)
       = Inl (Return (ERROR_VALUE ''negative power base'' (n_pos oper)))
     \<and> after_fold A (cur\<lparr>n_type := NT_Factorial\<rparr>) i' ops (DT_Real x # st)
       = Halt (Return (ERROR_VALUE ''factorial of negative number'' (n_pos cur)))
     \<and> main_line (real_ops\<lparr>pow := p, tgamma := g\<rparr>) ''(-1) ^ 0.5''
       = Return (DT_Error ''negative power base'' 5)
     \<and> main_line (real_ops\<lparr>pow := p, tgamma := g\<rparr>) ''(-1)!''
       = Return (DT_Error ''factorial of negative number'' 4)"
proof -
  have "main_line (real_ops\<lparr>pow := p, tgamma := g\<rparr>) ''(-1) ^ 0.5''
       = Return (DT_Error ''negative power base'' 5)"
    by (simp add: eval_defs)
  moreover have "main_line (real_ops\<lparr>pow := p, tgamma := g\<rparr>) ''(-1)!''
       = Return (DT_Error ''factorial of negative number'' 4)"
    by (simp add: eval_defs)
  ultimately show ?thesis
    using assms by (simp add: apply_operator_def after_fold_def)
qed

theorem negative_operand_guards_witness:
  "fp_lt real_ops (- 1) (fp_zero real_ops)
   \<and> apply_operator real_ops
       \<lparr>n_type = NT_Power, n_size = 0, n_pos = 5, n_name = [], n_error = [], n_real = 0\<rparr>
       [DT_Real (1 / 2), DT_Real (- 1)]
     = Inl (Return (DT_Error ''negative power base'' 5))
   \<and> after_fold real_ops
       \<lparr>n_type = NT_Factorial, n_size = 0, n_pos = 4, n_name = [], n_error = [], n_real = 0\<rparr>
       5 [] [DT_Real (- 1)]
     = Halt (Return (DT_Error ''factorial of negative number'' 4))"
proof -
  have neg: "fp_lt real_ops (- 1) (fp_zero real_ops)"
    by (simp add: real_ops_def)
  show ?thesis
    using neg negative_operand_guards [OF neg,
        of "\<lparr>n_type = NT_Global, n_size = 0, n_pos = 5, n_name = [], n_error = [], n_real = 0\<rparr>"
          "1 / 2" "[]"
          "\<lparr>n_type = NT_Global, n_size = 0, n_pos = 4, n_name = [], n_error = [], n_real = 0\<rparr>"
          5 "[]"]
    by (simp add: ERROR_VALUE_def)
qed

text \<open>
  C8: a subtract token read by \<open>ExpectValue\<close> is pushed on the operator stack with its type
  changed to unary minus, whose precedence \<open>{59, 59}\<close> is above the left precedence of add
  and subtract, so that a unary minus is applied before a binary operator that follows its
  operand. With the arithmetic of the reals, \<open>main\<close> evaluates \<open>-2 - -3\<close> to \<open>1\<close>.
\<close>

theorem unary_minus_retagged:
  "get_prec NT_Minus = \<lparr>left = 59, right = 59\<rparr>
   \<and> left (get_prec NT_Add) \<le> right (get_prec NT_Minus)
   \<and> left (get_prec NT_Subtract) \<le> right (get_prec NT_Minus)
   \<and> (n_type (fst (get_token A line (it c))) = NT_Subtract \<longrightarrow>
        ExpectValue A symbols line c =
          push_oper c (snd (get_token A line (it c)))
            ((fst (get_token A line (it c)))\<lparr>n_type := NT_Minus\<rparr>))
   \<and> main_line real_ops ''-2 - -3'' = Return (DT_Real 1)"
proof -
  have "main_line real_ops ''-2 - -3'' = Return (DT_Real 1)"
    by (simp add: eval_defs)
  then show ?thesis
    by (cases "get_token A line (it c)") (simp add: ExpectValue_def)
qed

theorem unary_minus_retagged_witness:
  "n_type (fst (get_token real_ops ''-2 - -3'' 0)) = NT_Subtract
   \<and> ExpectValue real_ops [] ''-2 - -3''
       \<lparr>it = 0,
        opers = [\<lparr>n_type = NT_Global, n_size = 0, n_pos = 0, n_name = [], n_error = [],
                  n_real = 0\<rparr>],
        stack = []\<rparr> =
       Goto_ExpectValue
         \<lparr>it = 1,
          opers = [\<lparr>n_type = NT_Minus, n_size = 0, n_pos = 0, n_name = [], n_error = [],
                    n_real = 0\<rparr>,
                   \<lparr>n_type = NT_Global, n_size = 0, n_pos = 0, n_name = [], n_error = [],
                    n_real = 0\<rparr>],
          stack = []\<rparr>"
proof -
  have tok: "get_token real_ops ''-2 - -3'' 0 =
      (\<lparr>n_type = NT_Subtract, n_size = 0, n_pos = 0, n_name = [], n_error = [], n_real = 0\<rparr>, 1)"
    by (simp add: get_token_def skip_blanks_def char_at_def real_ops_def)
  show ?thesis
    using unary_minus_retagged [of real_ops "''-2 - -3''"
        "\<lparr>it = 0,
          opers = [\<lparr>n_type = NT_Global, n_size = 0, n_pos = 0, n_name = [], n_error = [],
                    n_real = 0\<rparr>],
          stack = []\<rparr>" "[]"]
    by (simp add: tok push_oper_def STACK_SLOTS_def)
qed

text \<open>
  C9: the table \<open>main\<close> builds holds exactly two entries, \<open>e\<close> with the real \<open>M_E\<close> and
  \<open>pi\<close> with the real \<open>M_PI\<close> (2.718281828459045 and 3.141592653589793). The line \<open>e\<close>
  evaluates to the first and the line \<open>pi\<close> to the second; \<open>foo\<close> fails with
  \<open>identifier not found\<close> at offset 0, and in \<open>( foo\<close> at offset 2: the offset is the
  position of the identifier, put in by the evaluator.
\<close>

theorem seeded_symbols:
  "main_symbols A =
     Inr [\<lparr>s_name = ''e'', s_name_size = 1, s_value = DT_Real (M_E A)\<rparr>,
          \<lparr>s_name = ''pi'', s_name_size = 2, s_value = DT_Real (M_PI A)\<rparr>]
   \<and> M_E real_ops = 2.718281828459045 \<and> M_PI real_ops = 3.141592653589793
   \<and> main_line A ''e'' = Return (DT_Real (M_E A))
   \<and> main_line A ''pi'' = Return (DT_Real (M_PI A))
   \<and> main_line A ''foo'' = Return (DT_Error ''identifier not found'' 0)
   \<and> main_line A ''( foo'' = Return (DT_Error ''identifier not found'' 2)"
proof -
  have "main_line A ''e'' = Return (DT_Real (M_E A))"
    by (simp add: eval_defs)
  moreover have "main_line A ''pi'' = Return (DT_Real (M_PI A))"
    by (simp add: eval_defs)
  moreover have "main_line A ''foo'' = Return (DT_Error ''identifier not found'' 0)"
    by (simp add: eval_defs)
  moreover have "main_line A ''( foo'' = Return (DT_Error ''identifier not found'' 2)"
    by (simp add: eval_defs)
  ultimately show ?thesis
    by (simp add: main_symbols_eq) (simp add: real_ops_def)
qed

section \<open>The capacity of the arrays\<close>














text \<open>
  C4 does not hold of the code: no push tests the size of a stack. On a line of 64 open
  parentheses, and on one of 65, \<open>evaluate_line\<close> fills \<open>opers[1] .. opers[63]\<close> and then
  writes \<open>opers[64]\<close>, outside the array, whatever the arithmetic.
\<close>

theorem open_parentheses_overflow_opers:
  "main_line A ''(((((((((((((((((((((((((((((((((((((((((((((((((((((((((((((((('' =
     Undefined (Out_of_bounds Arr_opers 64)
   \<and> main_line A ''((((((((((((((((((((((((((((((((((((((((((((((((((((((((((((((((('' =
     Undefined (Out_of_bounds Arr_opers 64)"
  by (simp add: eval_defs)

lemma pending_Cons:
  "pending (n # ops) = (if is_binary (n_type n) then Suc (pending ops) else pending ops)"
  by (simp add: pending_def)

lemma pending_less: "ops \<noteq> [] \<Longrightarrow> n_type (last ops) = NT_Global \<Longrightarrow> pending ops < length ops"
proof (induction ops)
  case Nil
  then show ?case by simp
next
  case (Cons n ops)
  show ?case
  proof (cases "ops = []")
    case True
    with Cons.prems show ?thesis
      by (simp add: pending_def is_binary_def)
  next
    case False
    with Cons show ?thesis
      by (simp add: pending_Cons)
  qed
qed

lemma operands_in_bounds:
  "2 \<le> length st \<Longrightarrow>
     (\<forall>out. operands st pos = Inl out \<longrightarrow> in_bounds (Halt out))
     \<and> (\<forall>l r st'. operands st pos = Inr (l, r, st') \<longrightarrow> length st = length st' + 2)"
  by (induction st pos rule: operands.induct) (auto simp: ERROR_VALUE_def)

lemma apply_operator_in_bounds:
  assumes tp: "pushable (n_type tp)" "1 \<le> right (get_prec (n_type tp))"
    and st: "length st = pending (tp # ops) + 1"
  shows "(\<forall>out. apply_operator A tp st = Inl out \<longrightarrow> in_bounds (Halt out))
     \<and> (\<forall>st'. apply_operator A tp st = Inr st' \<longrightarrow> length st' = pending ops + 1)"
proof (cases "n_type tp = NT_Minus")
  case True
  with st show ?thesis
    by (auto simp: apply_operator_def pending_Cons is_binary_def ERROR_VALUE_def
        split: list.splits Value.splits)
next
  case False
  with tp have bin: "is_binary (n_type tp)"
    by (auto simp: pushable_def is_binary_def)
  with st have "2 \<le> length st" and len: "length st = pending ops + 2"
    by (simp_all add: pending_Cons)
  from operands_in_bounds [OF this(1), of "n_pos tp"] len bin show ?thesis
    by (auto simp: apply_operator_def is_binary_def ERROR_VALUE_def
        split: sum.splits if_splits)
qed


lemma opers_inv_pop:
  assumes "opers_inv (tp # ops)" and "n_type tp \<noteq> NT_Global"
  shows "opers_inv ops"
proof -
  from assms have "ops \<noteq> []"
    by (auto simp: opers_inv_def)
  with assms(1) show ?thesis
    by (simp add: opers_inv_def opers_ok_def)
qed

lemma fold_loop_in_bounds:
  "opers_inv ops \<Longrightarrow> length st = pending ops + 1 \<Longrightarrow> n_type cur \<noteq> NT_Global \<Longrightarrow>
     (\<forall>out. fold_loop A ops st cur = Inl out \<longrightarrow> in_bounds (Halt out))
     \<and> (\<forall>ops' st'. fold_loop A ops st cur = Inr (ops', st')
           \<longrightarrow> opers_inv ops' \<and> length st' = pending ops' + 1)"
proof (induction ops arbitrary: st)
  case Nil
  then show ?case by (simp add: opers_inv_def)
next
  case (Cons tp ops)
  show ?case
  proof (cases "right (get_prec (n_type tp)) < left (get_prec (n_type cur))")
    case True
    with Cons.prems show ?thesis by simp
  next
    case False
    with left_prec_pos [OF Cons.prems(3)] have right: "1 \<le> right (get_prec (n_type tp))"
      by simp
    then have "n_type tp \<noteq> NT_Global"
      by auto
    from opers_inv_pop [OF Cons.prems(1) this] have ops: "opers_inv ops" .
    from Cons.prems(1) have "pushable (n_type tp)"
      by (simp add: opers_inv_def opers_ok_def)
    note app = apply_operator_in_bounds [OF this right Cons.prems(2), of A]
    show ?thesis
    proof (cases "apply_operator A tp st")
      case (Inl out)
      with app False show ?thesis by simp
    next
      case (Inr st')
      with app have "length st' = pending ops + 1"
        by simp
      from Cons.IH [OF ops this Cons.prems(3)] False Inr show ?thesis
        by simp
    qed
  qed
qed

lemma push_oper_in_bounds:
  assumes "opers_inv (opers c)" and "pushable (n_type cur)"
    and "length (stack c) = pending (cur # opers c)"
  shows "in_bounds (push_oper c i' cur)"
  using assms
  by (auto simp: push_oper_def opers_inv_def opers_ok_def)

lemma ExpectValue_in_bounds:
  assumes inv: "opers_inv (opers c)" and st: "length (stack c) = pending (opers c)"
  shows "in_bounds (ExpectValue A symbols line c)"
proof -
  obtain cur i' where tok: "get_token A line (it c) = (cur, i')"
    by (cases "get_token A line (it c)")
  from inv have "pending (opers c) < length (opers c)"
    by (simp add: opers_inv_def pending_less)
  with inv st have room: "length (stack c) < STACK_SLOTS"
    by (simp add: opers_inv_def)
  show ?thesis
  proof (cases "n_type cur")
    case NT_OpenPar
    with push_oper_in_bounds [OF inv, of cur i'] st show ?thesis
      by (simp add: ExpectValue_def tok pushable_def pending_Cons is_binary_def)
  next
    case NT_Subtract
    with push_oper_in_bounds [OF inv, of "cur\<lparr>n_type := NT_Minus\<rparr>" i'] st show ?thesis
      by (simp add: ExpectValue_def tok pushable_def pending_Cons is_binary_def)
  next
    case NT_Identifier
    with inv st room show ?thesis
      by (simp add: ExpectValue_def tok split: Value.splits)
  next
    case NT_Number
    with inv st room show ?thesis
      by (simp add: ExpectValue_def tok)
  qed (use inv st in \<open>simp_all add: ExpectValue_def tok ERROR_VALUE_def\<close>)
qed

lemma after_fold_in_bounds:
  assumes inv: "opers_inv ops" and st: "length st = pending ops + 1"
  shows "in_bounds (after_fold A cur i' ops st)"
proof (cases "n_type cur \<in> {NT_Add, NT_Subtract, NT_Multiply, NT_Divide, NT_Power}")
  case True
  then have "pushable (n_type cur)" and "is_binary (n_type cur)"
    by (auto simp: pushable_def is_binary_def)
  with push_oper_in_bounds [of "\<lparr>it = i', opers = ops, stack = st\<rparr>" cur i'] inv st True
  show ?thesis
    by (simp add: after_fold_def Let_def pending_Cons)
next
  case False
  show ?thesis
  proof (cases "n_type cur")
    case NT_Factorial
    with inv st show ?thesis
      by (auto simp: after_fold_def Let_def ERROR_VALUE_def split: list.splits Value.splits)
  next
    case NT_Newline
    have "st \<noteq> []"
      using st by auto
    with NT_Newline show ?thesis
      by (simp add: after_fold_def Let_def ERROR_VALUE_def)
  next
    case NT_ClosePar
    show ?thesis
    proof (cases ops)
      case Nil
      with inv show ?thesis by (simp add: opers_inv_def)
    next
      case (Cons tp ops')
      show ?thesis
      proof (cases "n_type tp = NT_OpenPar")
        case True
        with inv Cons have "opers_inv ops'"
          by (simp add: opers_inv_pop)
        with True st Cons NT_ClosePar show ?thesis
          by (simp add: after_fold_def Let_def pending_Cons is_binary_def)
      next
        case False
        with Cons NT_ClosePar show ?thesis
          by (simp add: after_fold_def Let_def ERROR_VALUE_def)
      qed
    qed
  qed (use False in \<open>simp_all add: after_fold_def Let_def ERROR_VALUE_def\<close>)
qed

lemma ExpectOperator_in_bounds:
  assumes inv: "opers_inv (opers c)" and st: "length (stack c) = pending (opers c) + 1"
  shows "in_bounds (ExpectOperator A line c)"
proof -
  obtain cur i' where tok: "get_token A line (it c) = (cur, i')"
    by (cases "get_token A line (it c)")
  from token_not_global [of A line "it c"] tok have "n_type cur \<noteq> NT_Global"
    by simp
  from fold_loop_in_bounds [OF inv st this, of A] after_fold_in_bounds
  show ?thesis
    by (auto simp: ExpectOperator_def tok ERROR_VALUE_def split: sum.splits)
qed

lemma run_in_bounds: "in_bounds s \<Longrightarrow> in_bounds (Halt (run A symbols line s))"
proof (induction A symbols line s rule: run.induct)
  case (1 A symbols line out)
  then show ?case by simp
next
  case (2 A symbols line c)
  then show ?case by (simp add: ExpectValue_in_bounds)
next
  case (3 A symbols line c)
  then show ?case by (simp add: ExpectOperator_in_bounds)
qed

text \<open>
  The write \<open>opers[64]\<close> is the only access outside an array: for every arithmetic, table
  and line, \<open>evaluate_line\<close> either returns a \<open>Value\<close> or ends in that write. Until then
  the value stack stays within its 64 slots, no index falls below zero, \<open>stack[0]\<close> is
  written before it is returned, and the fold never exits.
\<close>

theorem only_fault_is_opers_overflow:
  "(\<exists>v. evaluate_line A symbols line = Return v)
   \<or> evaluate_line A symbols line = Undefined (Out_of_bounds Arr_opers 64)"
proof -
  have "in_bounds (Halt (evaluate_line A symbols line))"
    unfolding evaluate_line_def
    by (rule run_in_bounds)
      (simp add: opers_inv_def opers_ok_def pushable_def pending_def is_binary_def STACK_SLOTS_def)
  then show ?thesis
    by (cases "evaluate_line A symbols line") (simp_all add: STACK_SLOTS_def)
qed

section \<open>Lines that keep the operator stack within its array\<close>

lemma operator_chars_take_mono:
  "i \<le> j \<Longrightarrow> operator_chars (take i line) \<le> operator_chars (take j line)"
proof -
  assume "i \<le> j"
  then have "take j line = take i line @ take (j - i) (drop i line)"
    using take_add [of i "j - i" line] by simp
  then show ?thesis
    by (simp add: operator_chars_def)
qed

lemma operator_chars_take_le: "operator_chars (take i line) \<le> operator_chars line"
proof -
  have "operator_chars (take i line @ drop i line) = operator_chars line"
    by simp
  then show ?thesis
    unfolding operator_chars_def filter_append length_append by linarith
qed

lemma operator_chars_take_Suc:
  "p < length line \<Longrightarrow> line ! p \<in> set ''(+-*/^''
    \<Longrightarrow> operator_chars (take (Suc p) line) = Suc (operator_chars (take p line))"
  by (simp add: operator_chars_def take_Suc_conv_app_nth)

lemma get_token_cursor: "get_token A line i = (cur, i') \<Longrightarrow> i \<le> i'"
  by (auto simp: get_token_def Let_def skip_blanks_def skip_alnum_def split: if_splits prod.splits)

lemma get_token_operator:
  assumes "get_token A line i = (cur, i')"
    and "n_type cur \<in> {NT_OpenPar, NT_Add, NT_Subtract, NT_Multiply, NT_Divide, NT_Power}"
  shows "\<exists>p. i \<le> p \<and> p < length line \<and> line ! p \<in> set ''(+-*/^'' \<and> i' = Suc p"
proof -
  have "i \<le> skip_blanks line i"
    by (simp add: skip_blanks_def)
  with assms show ?thesis
    by (intro exI [of _ "skip_blanks line i"])
      (auto simp: get_token_def Let_def char_at_def split: if_splits prod.splits)
qed

lemma push_oper_roomy:
  assumes few: "operator_chars line \<le> 63"
    and room: "length (opers c) \<le> 1 + operator_chars (take i line)"
    and p: "i \<le> p" "p < length line" "line ! p \<in> set ''(+-*/^''"
  shows "roomy line (push_oper c (Suc p) cur)"
proof -
  from operator_chars_take_mono [OF p(1), of line] room
  have "length (opers c) \<le> 1 + operator_chars (take p line)"
    by simp
  moreover from operator_chars_take_Suc [OF p(2,3)]
  have suc: "operator_chars (take (Suc p) line) = Suc (operator_chars (take p line))" .
  moreover from operator_chars_take_le [of "Suc p" line] few
  have "operator_chars (take (Suc p) line) \<le> 63"
    by simp
  ultimately show ?thesis
    by (simp add: push_oper_def STACK_SLOTS_def)
qed

lemma operands_not_opers: "operands st pos \<noteq> Inl (Undefined (Out_of_bounds Arr_opers k))"
  by (induction st pos rule: operands.induct) simp_all

lemma apply_operator_not_opers:
  "apply_operator A oper st \<noteq> Inl (Undefined (Out_of_bounds Arr_opers k))"
  by (cases "n_type oper")
    (auto simp: apply_operator_def operands_not_opers
      split: sum.splits list.splits Value.splits if_splits)

lemma fold_loop_roomy:
  "(fold_loop A ops st cur = Inl out \<longrightarrow> roomy line (Halt out))
   \<and> (fold_loop A ops st cur = Inr (ops', st') \<longrightarrow> length ops' \<le> length ops)"
proof (induction ops arbitrary: st)
  case Nil
  then show ?case by (auto simp: size_t_sub_def STACK_SLOTS_def)
next
  case (Cons tp ops)
  show ?case
  proof (cases "right (get_prec (n_type tp)) < left (get_prec (n_type cur))")
    case True
    then show ?thesis by auto
  next
    case False
    show ?thesis
    proof (cases "apply_operator A tp st")
      case (Inl bad)
      with False apply_operator_not_opers [of A tp st STACK_SLOTS] show ?thesis
        by auto
    next
      case (Inr st1)
      with False Cons.IH [of st1] show ?thesis
        by auto
    qed
  qed
qed


lemma ExpectValue_roomy:
  assumes few: "operator_chars line \<le> 63"
    and room: "length (opers c) \<le> 1 + operator_chars (take (it c) line)"
    and st: "length (stack c) < STACK_SLOTS"
  shows "roomy line (ExpectValue A symbols line c)"
proof -
  obtain cur i' where tok: "get_token A line (it c) = (cur, i')"
    by (cases "get_token A line (it c)")
  from operator_chars_take_mono [OF get_token_cursor [OF tok], of line] room
  have later: "length (opers c) \<le> 1 + operator_chars (take i' line)"
    by simp
  show ?thesis
  proof (cases "n_type cur \<in> {NT_OpenPar, NT_Subtract}")
    case True
    with get_token_operator [OF tok] obtain p
      where p: "it c \<le> p" "p < length line" "line ! p \<in> set ''(+-*/^''" "i' = Suc p"
      by auto
    from push_oper_roomy [OF few room p(1-3)] True p(4) show ?thesis
      by (auto simp: ExpectValue_def tok)
  next
    case False
    with later st show ?thesis
      by (cases "n_type cur")
        (simp_all add: ExpectValue_def tok ERROR_VALUE_def split: Value.splits)
  qed
qed

lemma after_fold_roomy:
  assumes few: "operator_chars line \<le> 63"
    and room: "length ops \<le> 1 + operator_chars (take i line)"
    and tok: "get_token A line i = (cur, i')"
    and st: "st \<noteq> []" and ops: "ops \<noteq> []"
  shows "roomy line (after_fold B cur i' ops st)"
proof -
  from operator_chars_take_mono [OF get_token_cursor [OF tok], of line] room
  have later: "length ops \<le> 1 + operator_chars (take i' line)"
    by simp
  show ?thesis
  proof (cases "n_type cur \<in> {NT_Add, NT_Subtract, NT_Multiply, NT_Divide, NT_Power}")
    case True
    with get_token_operator [OF tok] obtain p
      where p: "i \<le> p" "p < length line" "line ! p \<in> set ''(+-*/^''" "i' = Suc p"
      by auto
    from push_oper_roomy [OF few, of "\<lparr>it = i', opers = ops, stack = st\<rparr>" i p cur] room p True
    show ?thesis
      by (simp add: after_fold_def Let_def)
  next
    case False
    with later st ops show ?thesis
      by (cases "n_type cur")
        (auto simp: after_fold_def Let_def ERROR_VALUE_def split: list.splits Value.splits)
  qed
qed


lemma ExpectOperator_roomy:
  assumes few: "operator_chars line \<le> 63"
    and room: "length (opers c) \<le> 1 + operator_chars (take (it c) line)"
    and inv: "opers_inv (opers c)" and st: "length (stack c) = pending (opers c) + 1"
  shows "roomy line (ExpectOperator A line c)"
proof -
  obtain cur i' where tok: "get_token A line (it c) = (cur, i')"
    by (cases "get_token A line (it c)")
  from token_not_global [of A line "it c"] tok have cur: "n_type cur \<noteq> NT_Global"
    by simp
  show ?thesis
  proof (cases "fold_loop A (opers c) (stack c) cur")
    case (Inl out)
    with fold_loop_roomy [of A "opers c" "stack c" cur out line] show ?thesis
      by (simp add: ExpectOperator_def tok ERROR_VALUE_def)
  next
    case (Inr r)
    obtain ops st where r: "r = (ops, st)"
      by (cases r)
    from fold_loop_in_bounds [OF inv st cur, of A] Inr r
    have "opers_inv ops" and "length st = pending ops + 1"
      by simp_all
    then have "ops \<noteq> []" and "st \<noteq> []"
      by (auto simp: opers_inv_def)
    moreover from fold_loop_roomy [of A "opers c" "stack c" cur _ line ops st] Inr r room
    have "length ops \<le> 1 + operator_chars (take (it c) line)"
      by simp
    ultimately show ?thesis
      using after_fold_roomy [OF few _ tok, of ops st A] Inr r
      by (simp add: ExpectOperator_def tok ERROR_VALUE_def)
  qed
qed

lemma run_roomy:
  "operator_chars line \<le> 63 \<Longrightarrow> in_bounds s \<Longrightarrow> roomy line s
    \<Longrightarrow> roomy line (Halt (run A symbols line s))"
proof (induction A symbols line s rule: run.induct)
  case (1 A symbols line out)
  then show ?case by simp
next
  case (2 A symbols line c)
  from 2(3) have "pending (opers c) < length (opers c)"
    by (simp add: opers_inv_def pending_less)
  with 2(3) have "length (stack c) < STACK_SLOTS"
    by (simp add: opers_inv_def)
  with 2 show ?case
    by (simp add: ExpectValue_in_bounds ExpectValue_roomy)
next
  case (3 A symbols line c)
  then show ?case
    by (simp add: ExpectOperator_in_bounds ExpectOperator_roomy)
qed

lemma few_operators_return:
  assumes "operator_chars line \<le> 63"
  shows "\<exists>v. evaluate_line A symbols line = Return v"
proof -
  have "roomy line (Halt (evaluate_line A symbols line))"
    unfolding evaluate_line_def
    by (rule run_roomy [OF assms])
      (simp_all add: opers_inv_def opers_ok_def pushable_def pending_def is_binary_def
        STACK_SLOTS_def)
  with only_fault_is_opers_overflow [of A symbols line] show ?thesis
    by (auto simp: STACK_SLOTS_def)
qed

lemma reaches_well_typed:
  assumes "list_all (\<lambda>s. is_real (s_value s)) symbols"
  shows "reaches A symbols line s \<Longrightarrow> well_typed s"
proof (induction rule: reaches.induct)
  case from_start
  then show ?case by simp
next
  case (through_ExpectValue c)
  then show ?case by (simp add: ExpectValue_well_typed [OF assms])
next
  case (through_ExpectOperator c)
  then show ?case by (simp add: ExpectOperator_well_typed)
qed

text \<open>
  C5, as stated for every line, fails: on the line of 64 open parentheses followed by
  \<open>1\<close> the call does not return. It writes \<open>opers[64]\<close>; the source tests no bound and
  runs on, and C defines nothing of what the fold then pops.
\<close>

theorem overflowing_line_does_not_return:
  "main_line real_ops ''((((((((((((((((((((((((((((((((((((((((((((((((((((((((((((((((1'' =
     Undefined (Out_of_bounds Arr_opers 64)"
  by (simp add: eval_defs)

text \<open>
  C5, amended: on every line on which no push writes past the 64 slots of the operator
  stack, the call returns a \<open>Value\<close>: the \<open>default\<close> branch of the fold that prints
  \<open>broken parser\<close> and exits is not reached. Every line with at most 63 of the characters
  \<open>( + - * / ^\<close> is such a line. The reason is the one the claim gives: a token read by
  the lexer has a left precedence of at least 1, the sentinel and an open parenthesis have
  the right precedence 0, so the loop only pops a unary minus or one of the five binary
  operators. This holds for every arithmetic and every table.
\<close>

theorem abort_unreachable_within_operator_stack:
  "(evaluate_line A symbols line \<noteq> Undefined (Out_of_bounds Arr_opers 64)
      \<longrightarrow> (\<exists>v. evaluate_line A symbols line = Return v))
   \<and> (operator_chars line \<le> 63 \<longrightarrow> (\<exists>v. evaluate_line A symbols line = Return v))
   \<and> 1 \<le> left (get_prec (n_type (fst (get_token A line i))))
   \<and> right (get_prec NT_Global) = 0 \<and> right (get_prec NT_OpenPar) = 0"
proof -
  have "1 \<le> left (get_prec (n_type (fst (get_token A line i))))"
    by (rule left_prec_pos) (rule token_not_global)
  with only_fault_is_opers_overflow [of A symbols line] few_operators_return [of line A symbols]
  show ?thesis
    by auto
qed

theorem abort_unreachable_within_operator_stack_witness:
  "operator_chars ''(1 + 2) * 3'' \<le> 63
   \<and> evaluate_line real_ops [] ''(1 + 2) * 3'' \<noteq> Undefined (Out_of_bounds Arr_opers 64)
   \<and> evaluate_line real_ops [] ''(1 + 2) * 3'' = Return (DT_Real 9)"
  using abort_unreachable_within_operator_stack [of real_ops "[]" "''(1 + 2) * 3''" 0]
  by (simp add: operator_chars_def) (simp add: eval_defs)

text \<open>
  C10, as stated for every line, fails: on the line of 64 minus signs followed by \<open>e\<close>
  the call, with the table of \<open>main\<close>, does not return. It writes \<open>opers[64]\<close>; the source
  runs on, and C defines nothing of the tags the operand tests then read.
\<close>

theorem overflowing_line_leaves_tags_undefined:
  "main_line real_ops ''----------------------------------------------------------------e'' =
     Undefined (Out_of_bounds Arr_opers 64)"
  by (simp add: eval_defs)

text \<open>
  C10, amended: when every entry of the symbol table is a real, as in the table \<open>main\<close>
  builds, every state the call passes through up to a write outside an array has a value
  stack of reals only. So on every line on which no push writes past the 64 slots of the
  operator stack (every line with at most 63 of the characters \<open>( + - * / ^\<close> is one) the
  operand tests of the fold and of the factorial never fail: the call returns a \<open>Value\<close>
  that is not void and not the error \<open>wrong data type\<close>. This holds for every arithmetic,
  and for the lines \<open>main\<close> evaluates.
\<close>

theorem reals_only_within_operator_stack:
  assumes "list_all (\<lambda>s. is_real (s_value s)) symbols"
  shows "(reaches A symbols line s \<longrightarrow> well_typed s)
     \<and> (evaluate_line A symbols line \<noteq> Undefined (Out_of_bounds Arr_opers 64)
          \<longrightarrow> (\<exists>v. evaluate_line A symbols line = Return v \<and> v \<noteq> DT_Void
                \<and> error_message (Return v) \<noteq> Some ''wrong data type''))
     \<and> (operator_chars line \<le> 63
          \<longrightarrow> (\<exists>v. evaluate_line A symbols line = Return v \<and> v \<noteq> DT_Void
                \<and> error_message (Return v) \<noteq> Some ''wrong data type''))
     \<and> (operator_chars line \<le> 63
          \<longrightarrow> (\<exists>v. main_line A line = Return v \<and> v \<noteq> DT_Void
                \<and> error_message (Return v) \<noteq> Some ''wrong data type''))"
proof -
  let ?seeded = "[\<lparr>s_name = ''e'', s_name_size = 1, s_value = DT_Real (M_E A)\<rparr>,
       \<lparr>s_name = ''pi'', s_name_size = 2, s_value = DT_Real (M_PI A)\<rparr>]"
  have typed: "\<exists>v. evaluate_line A t line = Return v \<and> v \<noteq> DT_Void
      \<and> error_message (Return v) \<noteq> Some ''wrong data type''"
    if "list_all (\<lambda>s. is_real (s_value s)) t"
      and "evaluate_line A t line \<noteq> Undefined (Out_of_bounds Arr_opers 64)" for t
    using evaluate_line_well_typed [OF that(1), of A line]
      only_fault_is_opers_overflow [of A t line] that(2)
    by auto
  have few: "evaluate_line A t line \<noteq> Undefined (Out_of_bounds Arr_opers 64)"
    if "operator_chars line \<le> 63" for t
    using few_operators_return [OF that, of A t] by auto
  have "list_all (\<lambda>s. is_real (s_value s)) ?seeded"
    by simp
  from typed [OF this] few [of ?seeded]
  have "operator_chars line \<le> 63
      \<longrightarrow> (\<exists>v. main_line A line = Return v \<and> v \<noteq> DT_Void
            \<and> error_message (Return v) \<noteq> Some ''wrong data type'')"
    by (simp add: main_line_def main_symbols_eq)
  with typed [OF assms] few [of symbols] reaches_well_typed [OF assms, of A line s]
  show ?thesis
    by blast
qed

theorem reals_only_within_operator_stack_witness:
  "list_all (\<lambda>s. is_real (s_value s))
       [\<lparr>s_name = ''e'', s_name_size = 1, s_value = DT_Real 2.718281828459045\<rparr>,
        \<lparr>s_name = ''pi'', s_name_size = 2, s_value = DT_Real (3.141592653589793 :: real)\<rparr>]
   \<and> main_symbols real_ops =
       Inr [\<lparr>s_name = ''e'', s_name_size = 1, s_value = DT_Real 2.718281828459045\<rparr>,
            \<lparr>s_name = ''pi'', s_name_size = 2, s_value = DT_Real 3.141592653589793\<rparr>]
   \<and> operator_chars ''2 * pi'' \<le> 63
   \<and> evaluate_line real_ops
         [\<lparr>s_name = ''e'', s_name_size = 1, s_value = DT_Real 2.718281828459045\<rparr>,
          \<lparr>s_name = ''pi'', s_name_size = 2, s_value = DT_Real 3.141592653589793\<rparr>]
         ''2 * pi'' = Return (DT_Real 6.283185307179586)"
proof -
  have table: "list_all (\<lambda>s. is_real (s_value s))
       [\<lparr>s_name = ''e'', s_name_size = 1, s_value = DT_Real 2.718281828459045\<rparr>,
        \<lparr>s_name = ''pi'', s_name_size = 2, s_value = DT_Real (3.141592653589793 :: real)\<rparr>]"
    by simp
  show ?thesis
    using reals_only_within_operator_stack [OF table, of real_ops "''2 * pi''"]
    by (simp add: operator_chars_def main_symbols_eq) (simp add: eval_defs)
qed

end
